theory Spec2Isabelle
  imports Complex_Main
begin

section \<open>Dense matrices as the filter uses them\<close>

text \<open>
  The filter of \<^verbatim>\<open>nuslam/src/nuslam/ekf_slam.cpp\<close> computes on \<^verbatim>\<open>double\<close> through a
  dense linear-algebra library. Here a \<^verbatim>\<open>double\<close> is a real number (infinities and NaN
  are not modelled, and rounding only where it is said so: the covariance prediction of
  line 150 has a second model with rounding), a dynamic vector is a list, and a dynamic
  matrix is the list of its rows. Every operation of the library that checks the shape of
  its operands with an assertion returns \<open>Inl EigenAssertion\<close> where that assertion fails;
  \<^verbatim>\<open>std::vector::at\<close> out of range returns \<open>Inl OutOfRange\<close>, an \<^verbatim>\<open>int\<close> computation
  that leaves the 32 bits of the type \<open>Inl SignedOverflow\<close>, and an allocation that the
  machine cannot serve \<open>Inl BadAlloc\<close>.
\<close>

datatype error = EigenAssertion | OutOfRange | SignedOverflow | BadAlloc

definition bind_r :: "error + 'a \<Rightarrow> ('a \<Rightarrow> error + 'b) \<Rightarrow> error + 'b" where
  "bind_r m f = (case m of Inl e \<Rightarrow> Inl e | Inr x \<Rightarrow> f x)"

type_synonym vec = "real list"
type_synonym mat = "real list list"

definition rows :: "mat \<Rightarrow> nat" where
  "rows A = length A"

definition cols :: "mat \<Rightarrow> nat" where
  "cols A = (case A of [] \<Rightarrow> 0 | r # _ \<Rightarrow> length r)"

definition is_mat :: "nat \<Rightarrow> nat \<Rightarrow> mat \<Rightarrow> bool" where
  "is_mat n m A = (length A = n \<and> list_all (\<lambda>r. length r = m) A)"

definition mk_mat :: "nat \<Rightarrow> nat \<Rightarrow> (nat \<Rightarrow> nat \<Rightarrow> real) \<Rightarrow> mat" where
  "mk_mat n m f = map (\<lambda>i. map (\<lambda>j. f i j) [0..<m]) [0..<n]"

text \<open>\<^verbatim>\<open>MatrixXd::Zero(r, c)\<close> and \<^verbatim>\<open>MatrixXd::Identity(r, c)\<close>: a negative size is refused.\<close>

definition Zero_m :: "int \<Rightarrow> int \<Rightarrow> error + mat" where
  "Zero_m r c = (if r < 0 \<or> c < 0 then Inl EigenAssertion
                 else Inr (mk_mat (nat r) (nat c) (\<lambda>i j. 0)))"

definition Identity_m :: "int \<Rightarrow> int \<Rightarrow> error + mat" where
  "Identity_m r c = (if r < 0 \<or> c < 0 then Inl EigenAssertion
                     else Inr (mk_mat (nat r) (nat c) (\<lambda>i j. if i = j then 1 else 0)))"

definition transpose_m :: "mat \<Rightarrow> mat" where
  "transpose_m A = mk_mat (cols A) (rows A) (\<lambda>i j. A ! j ! i)"

definition scale_m :: "mat \<Rightarrow> real \<Rightarrow> mat" where
  "scale_m A c = map (map (\<lambda>x. x * c)) A"

text \<open>Sum, difference and product assert that the shapes of the operands fit.\<close>

definition add_m :: "mat \<Rightarrow> mat \<Rightarrow> error + mat" where
  "add_m A B = (if rows A = rows B \<and> cols A = cols B
                then Inr (mk_mat (rows A) (cols A) (\<lambda>i j. A ! i ! j + B ! i ! j))
                else Inl EigenAssertion)"

definition sub_m :: "mat \<Rightarrow> mat \<Rightarrow> error + mat" where
  "sub_m A B = (if rows A = rows B \<and> cols A = cols B
                then Inr (mk_mat (rows A) (cols A) (\<lambda>i j. A ! i ! j - B ! i ! j))
                else Inl EigenAssertion)"

definition mul_m :: "mat \<Rightarrow> mat \<Rightarrow> error + mat" where
  "mul_m A B = (if cols A = rows B
                then Inr (mk_mat (rows A) (cols B) (\<lambda>i j. \<Sum>k<cols A. A ! i ! k * B ! k ! j))
                else Inl EigenAssertion)"

definition mul_mv :: "mat \<Rightarrow> vec \<Rightarrow> error + vec" where
  "mul_mv A v = (if cols A = length v
                 then Inr (map (\<lambda>i. \<Sum>k<cols A. A ! i ! k * v ! k) [0..<rows A])
                 else Inl EigenAssertion)"

definition add_v :: "vec \<Rightarrow> vec \<Rightarrow> error + vec" where
  "add_v u v = (if length u = length v then Inr (map2 (+) u v) else Inl EigenAssertion)"

definition sub_v :: "vec \<Rightarrow> vec \<Rightarrow> error + vec" where
  "sub_v u v = (if length u = length v then Inr (map2 (-) u v) else Inl EigenAssertion)"

text \<open>Coefficient access \<^verbatim>\<open>v(k)\<close>, \<^verbatim>\<open>A(i, j)\<close> asserts that the index is in range.\<close>

definition vget :: "vec \<Rightarrow> int \<Rightarrow> error + real" where
  "vget v k = (if 0 \<le> k \<and> k < int (length v) then Inr (v ! nat k) else Inl EigenAssertion)"

definition vset :: "vec \<Rightarrow> int \<Rightarrow> real \<Rightarrow> error + vec" where
  "vset v k x = (if 0 \<le> k \<and> k < int (length v) then Inr (v[nat k := x]) else Inl EigenAssertion)"

definition mset_coeff :: "mat \<Rightarrow> int \<Rightarrow> int \<Rightarrow> real \<Rightarrow> error + mat" where
  "mset_coeff A i j x =
     (if 0 \<le> i \<and> i < int (rows A) \<and> 0 \<le> j \<and> j < int (cols A)
      then Inr (A[nat i := (A ! nat i)[nat j := x]])
      else Inl EigenAssertion)"

text \<open>
  Writing a block: \<^verbatim>\<open>A.block(r, c, h, w) = B\<close>, where \<open>B\<close> is given by its
  coefficients. The block must lie inside \<open>A\<close>.
\<close>

definition set_block :: "mat \<Rightarrow> int \<Rightarrow> int \<Rightarrow> int \<Rightarrow> int \<Rightarrow> (nat \<Rightarrow> nat \<Rightarrow> real) \<Rightarrow> error + mat" where
  "set_block A r c h w f =
     (if 0 \<le> r \<and> 0 \<le> c \<and> 0 \<le> h \<and> 0 \<le> w \<and> r + h \<le> int (rows A) \<and> c + w \<le> int (cols A)
      then Inr (mk_mat (rows A) (cols A)
                 (\<lambda>i j. if nat r \<le> i \<and> i < nat (r + h) \<and> nat c \<le> j \<and> j < nat (c + w)
                         then f (i - nat r) (j - nat c) else A ! i ! j))
      else Inl EigenAssertion)"

text \<open>Fixed-size \<^verbatim>\<open>Matrix3d\<close>: the type admits 3 by 3 matrices only.\<close>

type_synonym vec3 = "real \<times> real \<times> real"
type_synonym mat3 = "vec3 \<times> vec3 \<times> vec3"

definition of_vec3 :: "vec3 \<Rightarrow> vec" where
  "of_vec3 v = (case v of (a, b, c) \<Rightarrow> [a, b, c])"

definition of_mat3 :: "mat3 \<Rightarrow> mat" where
  "of_mat3 M = (case M of (r0, r1, r2) \<Rightarrow> [of_vec3 r0, of_vec3 r1, of_vec3 r2])"

definition zero_mat3 :: mat3 where
  "zero_mat3 = ((0, 0, 0), (0, 0, 0), (0, 0, 0))"

definition symmetric_m :: "mat \<Rightarrow> bool" where
  "symmetric_m A = (transpose_m A = A)"

text \<open>
  \<^verbatim>\<open>M.llt()\<close> on a 3 by 3 matrix: the library's in-place, unblocked Cholesky
  factorisation, column by column. At column \<open>k\<close> the pivot is
  \<open>x = M(k,k) - \<Sum>j<k. M(k,j)\<^sup>2\<close>; when \<open>x \<le> 0\<close> the factorisation stops, reports a
  numerical issue in a flag nobody reads here, and leaves the rest of the matrix as it
  was. \<^verbatim>\<open>matrixL()\<close> is then the lower triangle of what is stored, with zeros above the
  diagonal.
\<close>

definition llt_matrixL :: "mat3 \<Rightarrow> mat3" where
  "llt_matrixL M = (case M of ((m00, m01, m02), (m10, m11, m12), (m20, m21, m22)) \<Rightarrow>
     if m00 \<le> 0 then ((m00, 0, 0), (m10, m11, 0), (m20, m21, m22))
     else let l00 = sqrt m00; l10 = m10 / l00; l20 = m20 / l00; x1 = m11 - l10 * l10 in
       if x1 \<le> 0 then ((l00, 0, 0), (l10, m11, 0), (l20, m21, m22))
       else let l11 = sqrt x1; l21 = (m21 - l20 * l10) / l11; x2 = m22 - (l20 * l20 + l21 * l21) in
         if x2 \<le> 0 then ((l00, 0, 0), (l10, l11, 0), (l20, l21, m22))
         else ((l00, 0, 0), (l10, l11, 0), (l20, l21, sqrt x2)))"

section \<open>The pseudo-random generator\<close>

text \<open>
  \<^verbatim>\<open>get_random()\<close> is one generator for the whole process. Its state is the stream of
  standard-normal samples it has yet to deliver; \<^verbatim>\<open>sampleNormalDistribution\<close> takes the
  first and leaves the rest.
\<close>

type_synonym rng = "nat \<Rightarrow> real"

definition sampleNormalDistribution :: "rng \<Rightarrow> real \<times> rng" where
  "sampleNormalDistribution g = (g 0, \<lambda>n. g (Suc n))"

section \<open>The estimator\<close>

record Twist2D =
  wz :: real
  vx :: real
  vy :: real

record slam =
  Qnoise :: mat3
  Rnoise :: mat3
  state_size :: int
  prev_state :: vec
  sigma :: mat

text \<open>The values of a C++ \<^verbatim>\<open>int\<close> of 32 bits.\<close>

definition int32 :: "int \<Rightarrow> bool" where
  "int32 x = (- 2147483648 \<le> x \<and> x \<le> 2147483647)"

text \<open>
  \<^verbatim>\<open>Slam::Slam\<close>. The landmark count and the state size are \<^verbatim>\<open>int\<close>: an argument
  outside the 32 bits cannot be passed, and \<^verbatim>\<open>3 + 2*num_landmarks\<close> outside them is an
  overflow; the model refuses both. \<^verbatim>\<open>resize\<close> refuses a negative size and obtains the
  storage, \<open>n\<close> doubles for the mean and \<open>n * n\<close> for the covariance; how many doubles the
  allocator can supply when the constructor is called is a matter of the machine and is
  the parameter \<open>cap\<close>. \<^verbatim>\<open>resize\<close> leaves the coefficients unspecified;
  \<^verbatim>\<open>setZero\<close> on the vector and the four corner writes then set every one of them (the
  model starts the matrix from zeros). The corners are blocks: \<^verbatim>\<open>topRightCorner(h, w)\<close>
  is \<^verbatim>\<open>block(0, cols - w, h, w)\<close>, and so on.
\<close>

definition Slam :: "nat \<Rightarrow> int \<Rightarrow> mat3 \<Rightarrow> mat3 \<Rightarrow> error + slam" where
  "Slam cap num_landmarks q_var r_var =
     (let l2 = 2 * num_landmarks; n = 3 + l2 in
      if int32 num_landmarks \<and> int32 l2 \<and> int32 n then
        if n < 0 then Inl EigenAssertion
        else if cap < nat n + nat n * nat n then Inl BadAlloc
        else
          bind_r (set_block (mk_mat (nat n) (nat n) (\<lambda>i j. 0)) 0 0 3 3 (\<lambda>i j. 0)) (\<lambda>s1.
          bind_r (set_block s1 0 (n - l2) 3 l2 (\<lambda>i j. 0)) (\<lambda>s2.
          bind_r (set_block s2 (n - l2) 0 l2 3 (\<lambda>i j. 0)) (\<lambda>s3.
          bind_r (Identity_m l2 l2) (\<lambda>idm.
          bind_r (set_block s3 (n - l2) (n - l2) l2 l2 (\<lambda>i j. scale_m idm 10000 ! i ! j)) (\<lambda>s4.
          Inr \<lparr>Qnoise = q_var, Rnoise = r_var, state_size = n,
               prev_state = replicate (nat n) 0, sigma = s4\<rparr>)))))
      else Inl SignedOverflow)"

text \<open>\<^verbatim>\<open>Slam::getStateNoise\<close>: three samples, multiplied by the Cholesky factor of \<open>Qnoise\<close>.\<close>

definition getStateNoise :: "slam \<Rightarrow> rng \<Rightarrow> vec3 \<times> rng" where
  "getStateNoise st g =
     (case llt_matrixL (Qnoise st) of ((l00, l01, l02), (l10, l11, l12), (l20, l21, l22)) \<Rightarrow>
      let (s0, g1) = sampleNormalDistribution g;
          (s1, g2) = sampleNormalDistribution g1;
          (s2, g3) = sampleNormalDistribution g2
      in ((l00 * s0 + l01 * s1 + l02 * s2,
           l10 * s0 + l11 * s1 + l12 * s2,
           l20 * s0 + l21 * s1 + l22 * s2), g3))"

text \<open>
  \<^verbatim>\<open>Slam::updateCovarPrediction\<close>, with exact sums and products; the same function with
  rounded ones is \<open>updateCovarPrediction_r\<close> below.
\<close>

definition updateCovarPrediction :: "vec3 \<Rightarrow> slam \<Rightarrow> error + slam" where
  "updateCovarPrediction dupdate st =
     (case dupdate of (d0, d1, d2) \<Rightarrow>
      bind_r (Zero_m (state_size st) (state_size st)) (\<lambda>g0.
      bind_r (mset_coeff g0 0 0 d0) (\<lambda>g1.
      bind_r (mset_coeff g1 1 0 d1) (\<lambda>g2.
      bind_r (mset_coeff g2 2 0 d2) (\<lambda>g3.
      bind_r (Identity_m (state_size st) (state_size st)) (\<lambda>idm.
      bind_r (add_m g3 idm) (\<lambda>Gt.
      bind_r (Zero_m (state_size st) (state_size st)) (\<lambda>q0.
      bind_r (set_block q0 0 0 3 3 (\<lambda>i j. of_mat3 (Qnoise st) ! i ! j)) (\<lambda>Qbar.
      bind_r (mul_m Gt (sigma st)) (\<lambda>gs.
      bind_r (mul_m gs (transpose_m Gt)) (\<lambda>gsg.
      bind_r (add_m gsg Qbar) (\<lambda>s'.
      Inr (st\<lparr>sigma := s'\<rparr>)))))))))))))"

text \<open>
  The pose increment \<open>update\<close> and its derivative \<open>dupdate\<close> of
  \<^verbatim>\<open>Slam::MotionModelUpdate\<close>, for heading \<open>th\<close>.
\<close>

definition motion_update :: "Twist2D \<Rightarrow> real \<Rightarrow> vec3" where
  "motion_update tw th =
     (if wz tw = 0 then (0, vx tw * cos th, vy tw * sin th)
      else let vel_ratio = vx tw / wz tw in
        (wz tw,
         - vel_ratio * sin th + vel_ratio * sin (th + wz tw),
         vel_ratio * cos th - vel_ratio * cos (th + wz tw)))"

definition motion_dupdate :: "Twist2D \<Rightarrow> real \<Rightarrow> vec3" where
  "motion_dupdate tw th =
     (if wz tw = 0 then (0, - vx tw * sin th, vx tw * cos th)
      else let vel_ratio = vx tw / wz tw in
        (0,
         - vel_ratio * cos th + vel_ratio * cos (th + wz tw),
         - vel_ratio * sin th + vel_ratio * sin (th + wz tw)))"

text \<open>\<^verbatim>\<open>Slam::MotionModelUpdate\<close>, the prediction step.\<close>

definition MotionModelUpdate :: "Twist2D \<Rightarrow> slam \<Rightarrow> rng \<Rightarrow> error + (slam \<times> rng)" where
  "MotionModelUpdate tw st g =
     (case getStateNoise st g of ((n0, n1, n2), g') \<Rightarrow>
      bind_r (vget (prev_state st) 0) (\<lambda>th.
      case motion_update tw th of (u0, u1, u2) \<Rightarrow>
      bind_r (vget (prev_state st) 0) (\<lambda>p0.
      bind_r (vset (prev_state st) 0 (p0 + (u0 + n0))) (\<lambda>v1.
      bind_r (vget v1 1) (\<lambda>p1.
      bind_r (vset v1 1 (p1 + (u1 + n1))) (\<lambda>v2.
      bind_r (vget v2 2) (\<lambda>p2.
      bind_r (vset v2 2 (p2 + (u2 + n2))) (\<lambda>v3.
      bind_r (updateCovarPrediction (motion_dupdate tw th) (st\<lparr>prev_state := v3\<rparr>)) (\<lambda>st'.
      Inr (st', g'))))))))))"

section \<open>The covariance prediction in double arithmetic\<close>

text \<open>
  Line 150 computes \<^verbatim>\<open>Gt * sigma * Gt.transpose() + Qbar\<close> in \<^verbatim>\<open>double\<close>: every sum and
  every product is rounded. \<open>dbl\<close> is that rounding, to the nearest number with a
  significand of 53 bits, ties to the even significand; the range of the exponent is not
  modelled (no overflow to infinity, no subnormal numbers, no NaN).
\<close>

definition pow2 :: "int \<Rightarrow> real" where
  "pow2 k = (if 0 \<le> k then 2 ^ nat k else 1 / 2 ^ nat (- k))"

definition round_even :: "real \<Rightarrow> int" where
  "round_even x = (let f = \<lfloor>x\<rfloor>; d = x - of_int f in
     if d < 1 / 2 then f else if 1 / 2 < d then f + 1 else if even f then f else f + 1)"

definition dbl :: "real \<Rightarrow> real" where
  "dbl x = (if x = 0 then 0
            else let u = pow2 (\<lfloor>log 2 \<bar>x\<bar>\<rfloor> - 52) in of_int (round_even (x / u)) * u)"

text \<open>
  The operations of \<^verbatim>\<open>updateCovarPrediction\<close> with a rounding \<open>rnd\<close> applied to the result
  of every addition and multiplication; with the identity for \<open>rnd\<close> they are the exact
  operations above. A coefficient of a product is the sum of the rounded products in the
  order of the index, starting from the first one.
\<close>

primrec sum_r :: "(real \<Rightarrow> real) \<Rightarrow> (nat \<Rightarrow> real) \<Rightarrow> nat \<Rightarrow> real" where
  "sum_r rnd f 0 = f 0"
| "sum_r rnd f (Suc k) = rnd (sum_r rnd f k + f (Suc k))"

definition add_m_r :: "(real \<Rightarrow> real) \<Rightarrow> mat \<Rightarrow> mat \<Rightarrow> error + mat" where
  "add_m_r rnd A B = (if rows A = rows B \<and> cols A = cols B
                      then Inr (mk_mat (rows A) (cols A) (\<lambda>i j. rnd (A ! i ! j + B ! i ! j)))
                      else Inl EigenAssertion)"

definition mul_m_r :: "(real \<Rightarrow> real) \<Rightarrow> mat \<Rightarrow> mat \<Rightarrow> error + mat" where
  "mul_m_r rnd A B =
     (if cols A = rows B
      then Inr (mk_mat (rows A) (cols B)
                 (\<lambda>i j. if cols A = 0 then 0
                         else sum_r rnd (\<lambda>k. rnd (A ! i ! k * B ! k ! j)) (cols A - 1)))
      else Inl EigenAssertion)"

definition updateCovarPrediction_r :: "(real \<Rightarrow> real) \<Rightarrow> vec3 \<Rightarrow> slam \<Rightarrow> error + slam" where
  "updateCovarPrediction_r rnd dupdate st =
     (case dupdate of (d0, d1, d2) \<Rightarrow>
      bind_r (Zero_m (state_size st) (state_size st)) (\<lambda>g0.
      bind_r (mset_coeff g0 0 0 d0) (\<lambda>g1.
      bind_r (mset_coeff g1 1 0 d1) (\<lambda>g2.
      bind_r (mset_coeff g2 2 0 d2) (\<lambda>g3.
      bind_r (Identity_m (state_size st) (state_size st)) (\<lambda>idm.
      bind_r (add_m_r rnd g3 idm) (\<lambda>Gt.
      bind_r (Zero_m (state_size st) (state_size st)) (\<lambda>q0.
      bind_r (set_block q0 0 0 3 3 (\<lambda>i j. of_mat3 (Qnoise st) ! i ! j)) (\<lambda>Qbar.
      bind_r (mul_m_r rnd Gt (sigma st)) (\<lambda>gs.
      bind_r (mul_m_r rnd gs (transpose_m Gt)) (\<lambda>gsg.
      bind_r (add_m_r rnd gsg Qbar) (\<lambda>s'.
      Inr (st\<lparr>sigma := s'\<rparr>)))))))))))))"

text \<open>
  The matrices of the specification's covariance step \<open>\<Sigma> \<leftarrow> G * \<Sigma> * G\<^sup>T + Qbar\<close>, in its
  words: \<open>G\<close> is the identity plus a matrix that is zero except for the top three
  entries of its first column, which are \<open>dupdate\<close>; \<open>Qbar\<close> is zero except for its
  top-left 3 by 3 block, which is \<open>Q\<close>.
\<close>

definition G_matrix :: "nat \<Rightarrow> vec3 \<Rightarrow> mat" where
  "G_matrix n dupdate =
     mk_mat n n (\<lambda>i j. (if i = j then 1 else 0) + (if j = 0 \<and> i < 3 then of_vec3 dupdate ! i else 0))"

definition Qbar_matrix :: "nat \<Rightarrow> mat3 \<Rightarrow> mat" where
  "Qbar_matrix n Q = mk_mat n n (\<lambda>i j. if i < 3 \<and> j < 3 then of_mat3 Q ! i ! j else 0)"

section \<open>The measurement update\<close>

text \<open>
  \<^verbatim>\<open>atan2\<close> of the C library on real numbers (there is no negative zero here):
  the angle of the point \<open>(x, y)\<close> in \<open>(-\<pi>, \<pi>]\<close>, and \<open>0\<close> at the origin.
\<close>

definition atan2 :: "real \<Rightarrow> real \<Rightarrow> real" where
  "atan2 y x =
     (if 0 < x then arctan (y / x)
      else if x < 0 then (if 0 \<le> y then arctan (y / x) + pi else arctan (y / x) - pi)
      else if 0 < y then pi / 2
      else if y < 0 then - (pi / 2)
      else 0)"

text \<open>
  Modelled from the spec: \<^verbatim>\<open>rigid2d::normalize_angle\<close> is called by \<^verbatim>\<open>sensorModel\<close>
  but neither declared nor defined in the sources at hand. The specification says that it
  "maps any real a into (-\<pi>, \<pi>], using wrap-around", with \<open>normalize_angle(-\<pi>) = \<pi>\<close>:
  a whole number of turns is taken off the angle.
\<close>

definition normalize_angle :: "real \<Rightarrow> real" where
  "normalize_angle a = a - 2 * pi * of_int \<lceil>(a - pi) / (2 * pi)\<rceil>"

text \<open>
  \<^verbatim>\<open>nuslam::TurtleMap\<close>, the observation batch: the centres of the observed
  landmarks (points, of which the filter reads \<open>x\<close> and \<open>y\<close>) and their radii.
\<close>

record Point =
  pt_x :: real
  pt_y :: real
  pt_z :: real

record TurtleMap =
  centers :: "Point list"
  radii :: "real list"

text \<open>\<^verbatim>\<open>std::vector::at\<close> throws \<^verbatim>\<open>std::out_of_range\<close> beyond the end.\<close>

definition at_v :: "'a list \<Rightarrow> nat \<Rightarrow> error + 'a" where
  "at_v xs i = (if i < length xs then Inr (xs ! i) else Inl OutOfRange)"

text \<open>
  \<^verbatim>\<open>Slam::getMeasurementNoise\<close>: two samples, multiplied by the top-left 2 by 2 corner of
  the Cholesky factor of the 3 by 3 \<open>Rnoise\<close>. The vector returned has a third coefficient
  that is never written and never read; the model returns the two that are.
\<close>

definition getMeasurementNoise :: "slam \<Rightarrow> rng \<Rightarrow> (real \<times> real) \<times> rng" where
  "getMeasurementNoise st g =
     (case llt_matrixL (Rnoise st) of ((l00, l01, l02), (l10, l11, l12), (l20, l21, l22)) \<Rightarrow>
      let (s0, g1) = sampleNormalDistribution g;
          (s1, g2) = sampleNormalDistribution g1
      in ((l00 * s0 + l01 * s1, l10 * s0 + l11 * s1), g2))"

text \<open>\<^verbatim>\<open>Slam::sensorModel\<close>: range and bearing of the point \<open>(x, y)\<close> seen from the pose.\<close>

definition sensorModel :: "slam \<Rightarrow> real \<Rightarrow> real \<Rightarrow> real \<times> real \<Rightarrow> error + (real \<times> real)" where
  "sensorModel st x y noise =
     bind_r (vget (prev_state st) 1) (\<lambda>p1.
     bind_r (vget (prev_state st) 2) (\<lambda>p2.
     bind_r (vget (prev_state st) 0) (\<lambda>p0.
     let x_diff = x - p1; y_diff = y - p2 in
     Inr (sqrt (x_diff * x_diff + y_diff * y_diff) + fst noise,
          normalize_angle (atan2 y_diff x_diff - p0 + snd noise)))))"

text \<open>
  The blocks of \<^verbatim>\<open>Slam::getHMatrix\<close>. For \<open>d = 0\<close> the source divides by zero and gets
  IEEE infinities or NaN; the quotients of the model are not the source's values there.
\<close>

definition getHMatrix_pt1 :: "real \<Rightarrow> real \<Rightarrow> real \<Rightarrow> mat" where
  "getHMatrix_pt1 x y d = (let sqd = sqrt d in [[0, - x / sqd, - y / sqd], [- 1, y / d, x / d]])"

definition getHMatrix_pt3 :: "real \<Rightarrow> real \<Rightarrow> real \<Rightarrow> mat" where
  "getHMatrix_pt3 x y d = (let sqd = sqrt d in [[x / sqd, y / sqd], [- y / d, x / d]])"

text \<open>
  The comma initialiser \<^verbatim>\<open>M << B1, B2, ...\<close> into a matrix of \<open>r\<close> rows and \<open>c\<close>
  columns, for blocks that all have \<open>r\<close> rows: the blocks are laid side by side from the
  left, and the library asserts that they fill the \<open>c\<close> columns exactly, neither more
  ("too many coefficients", "too many rows") nor fewer ("too few coefficients").
\<close>

definition comma_init :: "int \<Rightarrow> int \<Rightarrow> mat list \<Rightarrow> error + mat" where
  "comma_init r c blocks =
     (if r < 0 \<or> c < 0 then Inl EigenAssertion
      else if list_all (\<lambda>B. rows B = nat r) blocks \<and> sum_list (map cols blocks) = nat c
      then Inr (map (\<lambda>i. concat (map (\<lambda>B. B ! i) blocks)) [0..<nat r])
      else Inl EigenAssertion)"

text \<open>\<^verbatim>\<open>Slam::getHMatrix\<close>.\<close>

definition getHMatrix :: "slam \<Rightarrow> real \<Rightarrow> real \<Rightarrow> real \<Rightarrow> int \<Rightarrow> error + mat" where
  "getHMatrix st x y d ident =
     bind_r (Zero_m 2 (2 * ident)) (\<lambda>pt2.
     bind_r (Zero_m 2 (state_size st - 3 - 2 * ident)) (\<lambda>pt4.
     comma_init 2 (state_size st) [getHMatrix_pt1 x y d, pt2, getHMatrix_pt3 x y d, pt4]))"

text \<open>
  The gain of line 193,
  \<^verbatim>\<open>sigma * Hi.transpose() * (Hi * sigma * Hi.transpose() + Rnoise).inverse()\<close>.
  \<^verbatim>\<open>inverse()\<close> asserts a square matrix; what it computes is the library's and is the
  parameter \<open>invf\<close>.
\<close>

definition inverse_m :: "(mat \<Rightarrow> mat) \<Rightarrow> mat \<Rightarrow> error + mat" where
  "inverse_m invf A = (if rows A = cols A then Inr (invf A) else Inl EigenAssertion)"

definition kalman_gain :: "(mat \<Rightarrow> mat) \<Rightarrow> mat \<Rightarrow> mat \<Rightarrow> mat3 \<Rightarrow> error + mat" where
  "kalman_gain invf sig Hi rn =
     bind_r (mul_m sig (transpose_m Hi)) (\<lambda>sh.
     bind_r (mul_m Hi sig) (\<lambda>hs.
     bind_r (mul_m hs (transpose_m Hi)) (\<lambda>hsh.
     bind_r (add_m hsh (of_mat3 rn)) (\<lambda>s.
     bind_r (inverse_m invf s) (\<lambda>si.
     mul_m sh si)))))"

text \<open>
  Lines 170 to 182 of the loop body: the expected measurement of landmark \<open>i\<close>, with
  sampled noise, and the actual measurement of the observed centre, without.
\<close>

definition measurements :: "Point \<Rightarrow> nat \<Rightarrow> slam \<Rightarrow> rng \<Rightarrow> error + ((real \<times> real) \<times> (real \<times> real) \<times> rng)" where
  "measurements c i st g =
     (let landmark_index = 3 + 2 * int i in
      case getMeasurementNoise st g of (noise, g') \<Rightarrow>
      bind_r (vget (prev_state st) landmark_index) (\<lambda>lx.
      bind_r (vget (prev_state st) (landmark_index + 1)) (\<lambda>ly.
      bind_r (sensorModel st lx ly noise) (\<lambda>z_expected.
      bind_r (sensorModel st (pt_x c) (pt_y c) (0, 0)) (\<lambda>z_actual.
      Inr (z_expected, z_actual, g'))))))"

text \<open>The difference \<^verbatim>\<open>z_actual - z_expected\<close> of line 196.\<close>

definition innovation :: "real \<times> real \<Rightarrow> real \<times> real \<Rightarrow> real \<times> real" where
  "innovation z_actual z_expected = (fst z_actual - fst z_expected, snd z_actual - snd z_expected)"

text \<open>
  One round of the loop of \<^verbatim>\<open>Slam::MeasurmentModelUpdate\<close>, for the index \<open>i\<close>. The
  radius is fetched with \<^verbatim>\<open>radii.at(i)\<close> and not used.
\<close>

definition update_step :: "(mat \<Rightarrow> mat) \<Rightarrow> TurtleMap \<Rightarrow> nat \<Rightarrow> slam \<times> rng \<Rightarrow> error + (slam \<times> rng)" where
  "update_step invf map_data i sg =
     (case sg of (st, g) \<Rightarrow>
      bind_r (at_v (centers map_data) i) (\<lambda>c.
      bind_r (at_v (radii map_data) i) (\<lambda>cur_r.
      let landmark_index = 3 + 2 * int i in
      bind_r (measurements c i st g) (\<lambda>(z_expected, z_actual, g').
      bind_r (vget (prev_state st) landmark_index) (\<lambda>lx.
      bind_r (vget (prev_state st) 1) (\<lambda>p1.
      bind_r (vget (prev_state st) (landmark_index + 1)) (\<lambda>ly.
      bind_r (vget (prev_state st) 2) (\<lambda>p2.
      let del_x = lx - p1; del_y = ly - p2; dist = del_x * del_x + del_y * del_y in
      bind_r (getHMatrix st del_x del_y dist (int i)) (\<lambda>Hi.
      bind_r (kalman_gain invf (sigma st) Hi (Rnoise st)) (\<lambda>Ki.
      let y = innovation z_actual z_expected in
      bind_r (mul_mv Ki [fst y, snd y]) (\<lambda>dmu.
      bind_r (add_v (prev_state st) dmu) (\<lambda>mu'.
      bind_r (Identity_m (state_size st) (state_size st)) (\<lambda>idm.
      bind_r (mul_m Ki Hi) (\<lambda>kh.
      bind_r (sub_m idm kh) (\<lambda>ikh.
      bind_r (mul_m ikh (sigma st)) (\<lambda>sigma'.
      Inr (st\<lparr>prev_state := mu', sigma := sigma'\<rparr>, g')))))))))))))))))"

primrec update_loop :: "(nat \<Rightarrow> slam \<times> rng \<Rightarrow> error + (slam \<times> rng)) \<Rightarrow> nat list \<Rightarrow> slam \<times> rng \<Rightarrow> error + (slam \<times> rng)" where
  "update_loop body [] sg = Inr sg"
| "update_loop body (i # is) sg = bind_r (body i sg) (update_loop body is)"

text \<open>\<^verbatim>\<open>Slam::MeasurmentModelUpdate\<close>: the rounds for \<open>i = 0, ..., centers.size() - 1\<close>.\<close>

definition MeasurmentModelUpdate :: "(mat \<Rightarrow> mat) \<Rightarrow> TurtleMap \<Rightarrow> slam \<Rightarrow> rng \<Rightarrow> error + (slam \<times> rng)" where
  "MeasurmentModelUpdate invf map_data st g =
     update_loop (update_step invf map_data) [0..<length (centers map_data)] (st, g)"

text \<open>The estimate that a step leaves behind: the mean and the covariance.\<close>

definition estimate :: "error + (slam \<times> rng) \<Rightarrow> error + (vec \<times> mat)" where
  "estimate r = (case r of Inl e \<Rightarrow> Inl e | Inr (st, g) \<Rightarrow> Inr (prev_state st, sigma st))"

definition zero_rng :: rng where
  "zero_rng = (\<lambda>n. 0)"

text \<open>A state as the constructor and the two steps keep it: the sizes agree.\<close>

definition wf_slam :: "slam \<Rightarrow> bool" where
  "wf_slam st = (3 \<le> state_size st \<and> length (prev_state st) = nat (state_size st)
                 \<and> is_mat (nat (state_size st)) (nat (state_size st)) (sigma st))"

text \<open>
  The coefficient \<open>(i, j)\<close> of \<open>G * S * G\<^sup>T + Qb\<close> as the products and the sum of
  \<^verbatim>\<open>updateCovarPrediction\<close> compute it, for matrices of size \<open>n\<close>.
\<close>

definition covar_entry :: "nat \<Rightarrow> mat \<Rightarrow> mat \<Rightarrow> mat \<Rightarrow> nat \<Rightarrow> nat \<Rightarrow> real" where
  "covar_entry n G S Qb i j = (\<Sum>l<n. (\<Sum>k<n. G ! i ! k * S ! k ! l) * G ! j ! l) + Qb ! i ! j"

text \<open>
  Symmetric positive semi-definite 3 by 3 matrices, the condition that the specification
  puts on \<open>Q\<close> and \<open>R\<close>; no function of the sources computes it.
\<close>

definition psd3 :: "mat3 \<Rightarrow> bool" where
  "psd3 M = (case M of ((a, b, c), (d, e, f), (g, h, k)) \<Rightarrow>
     \<forall>x y z. 0 \<le> x * (a * x + b * y + c * z) + y * (d * x + e * y + f * z) + z * (g * x + h * y + k * z))"

definition spsd3 :: "mat3 \<Rightarrow> bool" where
  "spsd3 M = (symmetric_m (of_mat3 M) \<and> psd3 M)"

section \<open>Facts about the matrix operations\<close>

lemma length_mk_mat [simp]: "length (mk_mat n m f) = n"
  by (simp add: mk_mat_def)

lemma rows_mk_mat [simp]: "rows (mk_mat n m f) = n"
  by (simp add: rows_def)

lemma mk_mat_nth [simp]: "i < n \<Longrightarrow> j < m \<Longrightarrow> mk_mat n m f ! i ! j = f i j"
  by (simp add: mk_mat_def)

lemma mk_mat_row_length [simp]: "i < n \<Longrightarrow> length (mk_mat n m f ! i) = m"
  by (simp add: mk_mat_def)

lemma is_mat_mk_mat [simp]: "is_mat n m (mk_mat n m f)"
  by (simp add: is_mat_def mk_mat_def list_all_iff)

lemma is_mat_rows: "is_mat n m A \<Longrightarrow> rows A = n"
  by (simp add: is_mat_def rows_def)

lemma is_mat_cols: "is_mat n m A \<Longrightarrow> 0 < n \<Longrightarrow> cols A = m"
  by (cases A) (simp_all add: is_mat_def cols_def)

lemma is_mat_row_length: "is_mat n m A \<Longrightarrow> i < n \<Longrightarrow> length (A ! i) = m"
  by (simp add: is_mat_def list_all_length)

lemma mat_eqI:
  assumes "is_mat n m A" and "is_mat n m B"
    and "\<And>i j. i < n \<Longrightarrow> j < m \<Longrightarrow> A ! i ! j = B ! i ! j"
  shows "A = B"
proof (rule nth_equalityI)
  show "length A = length B" using assms(1,2) by (simp add: is_mat_def)
next
  fix i assume "i < length A"
  then have i: "i < n" using assms(1) by (simp add: is_mat_def)
  show "A ! i = B ! i"
  proof (rule nth_equalityI)
    show "length (A ! i) = length (B ! i)"
      using assms(1,2) i by (simp add: is_mat_row_length)
  next
    fix j assume "j < length (A ! i)"
    then have "j < m" using assms(1) i by (simp add: is_mat_row_length)
    then show "A ! i ! j = B ! i ! j" using i assms(3) by simp
  qed
qed

lemma mk_mat_cong:
  "(\<And>i j. i < n \<Longrightarrow> j < m \<Longrightarrow> f i j = g i j) \<Longrightarrow> mk_mat n m f = mk_mat n m g"
  by (rule mat_eqI [of n m]) simp_all

lemma is_mat_mset_coeff:
  assumes "is_mat n m A" and "i < n" and "j < m"
  shows "\<exists>A'. mset_coeff A (int i) (int j) x = Inr A' \<and> is_mat n m A'"
proof -
  have n: "0 < n" using assms(2) by simp
  have "rows A = n" "cols A = m" using assms(1) n by (simp_all add: is_mat_rows is_mat_cols)
  then have "mset_coeff A (int i) (int j) x = Inr (A[i := (A ! i)[j := x]])"
    using assms(2,3) by (simp add: mset_coeff_def)
  moreover have "is_mat n m (A[i := (A ! i)[j := x]])"
    using assms by (auto simp: is_mat_def list_all_length nth_list_update)
  ultimately show ?thesis by blast
qed

lemma add_m_ok:
  "is_mat n m A \<Longrightarrow> is_mat n m B \<Longrightarrow> 0 < n \<Longrightarrow>
   add_m A B = Inr (mk_mat n m (\<lambda>i j. A ! i ! j + B ! i ! j))"
  by (simp add: add_m_def is_mat_rows is_mat_cols)

lemma mul_m_ok:
  "is_mat n m A \<Longrightarrow> is_mat m p B \<Longrightarrow> 0 < n \<Longrightarrow> 0 < m \<Longrightarrow>
   mul_m A B = Inr (mk_mat n p (\<lambda>i j. \<Sum>k<m. A ! i ! k * B ! k ! j))"
  by (simp add: mul_m_def is_mat_rows is_mat_cols)

lemma transpose_m_ok:
  "is_mat n m A \<Longrightarrow> 0 < n \<Longrightarrow> transpose_m A = mk_mat m n (\<lambda>i j. A ! j ! i)"
  by (simp add: transpose_m_def is_mat_rows is_mat_cols)

lemma set_block_ok:
  "is_mat n m A \<Longrightarrow> 0 < n \<Longrightarrow> h \<le> n \<Longrightarrow> w \<le> m \<Longrightarrow>
   set_block A 0 0 (int h) (int w) f =
     Inr (mk_mat n m (\<lambda>i j. if i < h \<and> j < w then f i j else A ! i ! j))"
  by (simp add: set_block_def is_mat_rows is_mat_cols cong: if_cong)

lemma symmetric_mk_mat:
  assumes "\<And>i j. i < n \<Longrightarrow> j < n \<Longrightarrow> f i j = f j i"
  shows "symmetric_m (mk_mat n n f)"
proof (cases "n = 0")
  case True
  then show ?thesis by (simp add: symmetric_m_def transpose_m_def mk_mat_def cols_def rows_def)
next
  case False
  then have "transpose_m (mk_mat n n f) = mk_mat n n (\<lambda>i j. mk_mat n n f ! j ! i)"
    by (simp add: transpose_m_ok)
  also have "\<dots> = mk_mat n n f"
    by (rule mk_mat_cong) (simp add: assms)
  finally show ?thesis by (simp add: symmetric_m_def)
qed

lemma symmetric_nth:
  assumes "symmetric_m A" and "is_mat n n A" and "i < n" and "j < n"
  shows "A ! i ! j = A ! j ! i"
proof -
  have "0 < n" using assms(3) by simp
  then have "transpose_m A = mk_mat n n (\<lambda>i j. A ! j ! i)"
    using assms(2) by (simp add: transpose_m_ok)
  then have "A = mk_mat n n (\<lambda>i j. A ! j ! i)"
    using assms(1) by (simp add: symmetric_m_def)
  then have "A ! i ! j = mk_mat n n (\<lambda>i j. A ! j ! i) ! i ! j" by simp
  then show ?thesis using assms(3,4) by simp
qed

lemma congruence_sum_swap:
  fixes G S :: "nat \<Rightarrow> nat \<Rightarrow> real"
  assumes "\<And>k l. k < n \<Longrightarrow> l < n \<Longrightarrow> S k l = S l k"
  shows "(\<Sum>l<n. (\<Sum>k<n. G i k * S k l) * G j l) = (\<Sum>l<n. (\<Sum>k<n. G j k * S k l) * G i l)"
proof -
  have "(\<Sum>l<n. (\<Sum>k<n. G i k * S k l) * G j l) = (\<Sum>l<n. \<Sum>k<n. G i k * S k l * G j l)"
    by (simp add: sum_distrib_right)
  also have "\<dots> = (\<Sum>k<n. \<Sum>l<n. G i k * S k l * G j l)"
    by (rule sum.swap)
  also have "\<dots> = (\<Sum>k<n. \<Sum>l<n. G j l * S l k * G i k)"
    by (intro sum.cong refl) (simp add: assms mult_ac)
  also have "\<dots> = (\<Sum>k<n. (\<Sum>l<n. G j l * S l k) * G i k)"
    by (simp add: sum_distrib_right)
  finally show ?thesis .
qed


lemma bind_r_Inr [simp]: "bind_r (Inr x) f = f x"
  by (simp add: bind_r_def)

lemma bind_r_Inl [simp]: "bind_r (Inl e) f = Inl e"
  by (simp add: bind_r_def)

lemma covar_formula:
  assumes G: "is_mat n n G" and S: "is_mat n n S" and Q: "is_mat n n Qb" and n: "0 < n"
  shows "bind_r (mul_m G S) (\<lambda>gs. bind_r (mul_m gs (transpose_m G)) (\<lambda>gsg. bind_r (add_m gsg Qb) K))
         = K (mk_mat n n (covar_entry n G S Qb))"
proof -
  let ?gs = "mk_mat n n (\<lambda>i j. \<Sum>k<n. G ! i ! k * S ! k ! j)"
  let ?gt = "mk_mat n n (\<lambda>i j. G ! j ! i)"
  let ?gsg = "mk_mat n n (\<lambda>i j. \<Sum>l<n. ?gs ! i ! l * ?gt ! l ! j)"
  have 1: "mul_m G S = Inr ?gs" using G S n by (simp add: mul_m_ok)
  have 2: "transpose_m G = ?gt" using G n by (simp add: transpose_m_ok)
  have 3: "mul_m ?gs ?gt = Inr ?gsg" using n by (simp add: mul_m_ok)
  have 4: "add_m ?gsg Qb = Inr (mk_mat n n (\<lambda>i j. ?gsg ! i ! j + Qb ! i ! j))"
    using Q n by (simp add: add_m_ok)
  have 5: "mk_mat n n (\<lambda>i j. ?gsg ! i ! j + Qb ! i ! j) = mk_mat n n (covar_entry n G S Qb)"
  proof (rule mk_mat_cong)
    fix i j assume ij: "i < n" "j < n"
    have "(\<Sum>l<n. ?gs ! i ! l * ?gt ! l ! j) = (\<Sum>l<n. (\<Sum>k<n. G ! i ! k * S ! k ! l) * G ! j ! l)"
      by (rule sum.cong) (simp_all add: ij)
    then show "?gsg ! i ! j + Qb ! i ! j = covar_entry n G S Qb i j"
      using ij by (simp add: covar_entry_def)
  qed
  show ?thesis by (simp add: 1 2 3 4 5)
qed

lemma covar_symmetric:
  assumes S: "is_mat n n S" and sS: "symmetric_m S"
    and Qs: "\<And>i j. i < n \<Longrightarrow> j < n \<Longrightarrow> Qb ! i ! j = Qb ! j ! i"
  shows "symmetric_m (mk_mat n n (covar_entry n G S Qb))"
proof (rule symmetric_mk_mat)
  fix i j assume ij: "i < n" "j < n"
  have "(\<Sum>l<n. (\<Sum>k<n. G ! i ! k * S ! k ! l) * G ! j ! l)
      = (\<Sum>l<n. (\<Sum>k<n. G ! j ! k * S ! k ! l) * G ! i ! l)"
    by (rule congruence_sum_swap) (rule symmetric_nth [OF sS S])
  then show "covar_entry n G S Qb i j = covar_entry n G S Qb j i"
    using ij by (simp add: covar_entry_def Qs)
qed

lemma cols_mk_mat [simp]: "0 < n \<Longrightarrow> cols (mk_mat n m f) = m"
  by (rule is_mat_cols [of n]) simp_all

lemma mset_coeff_mk_mat:
  assumes "i < n" and "j < m"
  shows "mset_coeff (mk_mat n m f) (int i) (int j) x =
         Inr (mk_mat n m (\<lambda>a b. if a = i \<and> b = j then x else f a b))"
proof -
  let ?A = "mk_mat n m f"
  have n: "0 < n" using assms(1) by simp
  have "is_mat n m (?A[i := (?A ! i)[j := x]])"
    using assms by (auto simp: is_mat_def list_all_length nth_list_update)
  moreover have "?A[i := (?A ! i)[j := x]] ! a ! b = (if a = i \<and> b = j then x else f a b)"
    if "a < n" "b < m" for a b
    using that assms by (cases "a = i"; cases "b = j") (simp_all add: nth_list_update)
  ultimately have "?A[i := (?A ! i)[j := x]] = mk_mat n m (\<lambda>a b. if a = i \<and> b = j then x else f a b)"
    by (intro mat_eqI [of n m]) simp_all
  then show ?thesis using assms n by (simp add: mset_coeff_def)
qed

lemma is_mat_of_mat3: "is_mat 3 3 (of_mat3 M)"
  by (cases M) (auto simp: of_mat3_def of_vec3_def is_mat_def)

lemma is_mat_G_matrix [simp]: "is_mat n n (G_matrix n d)"
  by (simp add: G_matrix_def)

lemma is_mat_Qbar_matrix [simp]: "is_mat n n (Qbar_matrix n Q)"
  by (simp add: Qbar_matrix_def)

lemma Qbar_matrix_symmetric:
  assumes "symmetric_m (of_mat3 Q)" and "i < n" and "j < n"
  shows "Qbar_matrix n Q ! i ! j = Qbar_matrix n Q ! j ! i"
  using assms symmetric_nth [OF assms(1) is_mat_of_mat3, of i j]
  by (auto simp: Qbar_matrix_def)

text \<open>
  On a state whose sizes agree, \<^verbatim>\<open>updateCovarPrediction\<close> succeeds and the new covariance
  is \<open>G * \<Sigma> * G\<^sup>T + Qbar\<close> for the matrices \<open>G\<close> and \<open>Qbar\<close> of the specification.
\<close>

lemma updateCovarPrediction_ok:
  assumes wf: "wf_slam st"
  shows "updateCovarPrediction d st =
           Inr (st\<lparr>sigma := mk_mat (nat (state_size st)) (nat (state_size st))
                 (covar_entry (nat (state_size st)) (G_matrix (nat (state_size st)) d) (sigma st)
                    (Qbar_matrix (nat (state_size st)) (Qnoise st)))\<rparr>)"
proof -
  define n where "n = nat (state_size st)"
  obtain d0 d1 d2 where d: "d = (d0, d1, d2)" by (cases d) auto
  have n3: "3 \<le> n" and ss: "state_size st = int n" and S: "is_mat n n (sigma st)"
    using wf by (auto simp: wf_slam_def n_def)
  have z: "Zero_m (int n) (int n) = Inr (mk_mat n n (\<lambda>i j. 0))"
    by (simp add: Zero_m_def)
  have idm: "Identity_m (int n) (int n) = Inr (mk_mat n n (\<lambda>i j. if i = j then 1 else 0))"
    by (simp add: Identity_m_def)
  have g1: "mset_coeff (mk_mat n n (\<lambda>i j. 0)) 0 0 d0 =
      Inr (mk_mat n n (\<lambda>a b. if a = 0 \<and> b = 0 then d0 else 0))"
    using mset_coeff_mk_mat [of 0 n 0 n "\<lambda>i j. 0" d0] n3 by simp
  have g2: "mset_coeff (mk_mat n n (\<lambda>a b. if a = 0 \<and> b = 0 then d0 else 0)) 1 0 d1 =
      Inr (mk_mat n n (\<lambda>a b. if a = 1 \<and> b = 0 then d1 else if a = 0 \<and> b = 0 then d0 else 0))"
    using mset_coeff_mk_mat [of 1 n 0 n "\<lambda>a b. if a = 0 \<and> b = 0 then d0 else 0" d1] n3 by simp
  have g3: "mset_coeff (mk_mat n n (\<lambda>a b. if a = 1 \<and> b = 0 then d1 else if a = 0 \<and> b = 0 then d0 else 0)) 2 0 d2 =
      Inr (mk_mat n n (\<lambda>a b. if a = 2 \<and> b = 0 then d2 else if a = 1 \<and> b = 0 then d1
                               else if a = 0 \<and> b = 0 then d0 else 0))"
    using mset_coeff_mk_mat [of 2 n 0 n
        "\<lambda>a b. if a = 1 \<and> b = 0 then d1 else if a = 0 \<and> b = 0 then d0 else 0" d2] n3 by simp
  have Ge: "mk_mat n n (\<lambda>i j. mk_mat n n (\<lambda>a b. if a = 2 \<and> b = 0 then d2 else if a = 1 \<and> b = 0 then d1
                               else if a = 0 \<and> b = 0 then d0 else 0) ! i ! j
                          + mk_mat n n (\<lambda>i j. if i = j then 1 else 0) ! i ! j) = G_matrix n d"
    unfolding G_matrix_def
    by (rule mk_mat_cong) (auto simp: d of_vec3_def numeral_3_eq_3 less_Suc_eq numeral_2_eq_2)
  have "add_m (mk_mat n n (\<lambda>a b. if a = 2 \<and> b = 0 then d2 else if a = 1 \<and> b = 0 then d1
                               else if a = 0 \<and> b = 0 then d0 else 0))
                   (mk_mat n n (\<lambda>i j. if i = j then 1 else 0))
        = Inr (mk_mat n n (\<lambda>i j. mk_mat n n (\<lambda>a b. if a = 2 \<and> b = 0 then d2 else if a = 1 \<and> b = 0 then d1
                               else if a = 0 \<and> b = 0 then d0 else 0) ! i ! j
                          + mk_mat n n (\<lambda>i j. if i = j then 1 else 0) ! i ! j))"
    using n3 by (intro add_m_ok) simp_all
  then have Gt: "add_m (mk_mat n n (\<lambda>a b. if a = 2 \<and> b = 0 then d2 else if a = 1 \<and> b = 0 then d1
                               else if a = 0 \<and> b = 0 then d0 else 0))
                   (mk_mat n n (\<lambda>i j. if i = j then 1 else 0)) = Inr (G_matrix n d)"
    by (simp only: Ge)
  have "mk_mat n n (\<lambda>i j. if i < 3 \<and> j < 3 then of_mat3 (Qnoise st) ! i ! j
                          else mk_mat n n (\<lambda>i j. 0) ! i ! j) = Qbar_matrix n (Qnoise st)"
    unfolding Qbar_matrix_def by (rule mk_mat_cong) simp
  then have Qb: "set_block (mk_mat n n (\<lambda>i j. 0)) 0 0 3 3 (\<lambda>i j. of_mat3 (Qnoise st) ! i ! j)
                 = Inr (Qbar_matrix n (Qnoise st))"
    using set_block_ok [of n n "mk_mat n n (\<lambda>i j. 0)" 3 3 "\<lambda>i j. of_mat3 (Qnoise st) ! i ! j"] n3
    by simp
  have n0: "0 < n" using n3 by simp
  have "updateCovarPrediction d st =
        Inr (st\<lparr>sigma := mk_mat n n (covar_entry n (G_matrix n d) (sigma st) (Qbar_matrix n (Qnoise st)))\<rparr>)"
    unfolding updateCovarPrediction_def d ss
    by (simp only: prod.case z idm g1 g2 g3 Gt Qb bind_r_Inr
        covar_formula [OF is_mat_G_matrix S is_mat_Qbar_matrix n0]) (simp add: d)
  then show ?thesis unfolding n_def .
qed

lemma MotionModelUpdate_ok:
  assumes wf: "wf_slam st"
  shows "MotionModelUpdate tw st g =
           Inr (st\<lparr>prev_state := (prev_state st)
                    [0 := prev_state st ! 0 + (fst (motion_update tw (prev_state st ! 0)) + fst (fst (getStateNoise st g))),
                     1 := prev_state st ! 1 + (fst (snd (motion_update tw (prev_state st ! 0))) + fst (snd (fst (getStateNoise st g)))),
                     2 := prev_state st ! 2 + (snd (snd (motion_update tw (prev_state st ! 0))) + snd (snd (fst (getStateNoise st g))))],
                   sigma := mk_mat (nat (state_size st)) (nat (state_size st))
                     (covar_entry (nat (state_size st))
                        (G_matrix (nat (state_size st)) (motion_dupdate tw (prev_state st ! 0))) (sigma st)
                        (Qbar_matrix (nat (state_size st)) (Qnoise st)))\<rparr>,
                snd (getStateNoise st g))"
proof -
  obtain n0 n1 n2 g' where ns: "getStateNoise st g = ((n0, n1, n2), g')"
    by (cases "getStateNoise st g") auto
  obtain u0 u1 u2 where us: "motion_update tw (prev_state st ! 0) = (u0, u1, u2)"
    by (cases "motion_update tw (prev_state st ! 0)") auto
  define v3 where "v3 = (prev_state st)[0 := prev_state st ! 0 + (u0 + n0),
      1 := prev_state st ! 1 + (u1 + n1), 2 := prev_state st ! 2 + (u2 + n2)]"
  have len: "prev_state st \<noteq> []" "Suc 0 < length (prev_state st)" "2 < length (prev_state st)"
    using wf by (auto simp: wf_slam_def)
  have wf': "wf_slam (st\<lparr>prev_state := v3\<rparr>)"
    using wf by (simp add: wf_slam_def v3_def)
  have U: "updateCovarPrediction (motion_dupdate tw (prev_state st ! 0)) (st\<lparr>prev_state := v3\<rparr>) =
      Inr (st\<lparr>prev_state := v3, sigma := mk_mat (nat (state_size st)) (nat (state_size st))
                 (covar_entry (nat (state_size st))
                    (G_matrix (nat (state_size st)) (motion_dupdate tw (prev_state st ! 0))) (sigma st)
                    (Qbar_matrix (nat (state_size st)) (Qnoise st)))\<rparr>)"
    using updateCovarPrediction_ok [OF wf', of "motion_dupdate tw (prev_state st ! 0)"] by simp
  have "MotionModelUpdate tw st g =
      bind_r (updateCovarPrediction (motion_dupdate tw (prev_state st ! 0)) (st\<lparr>prev_state := v3\<rparr>))
             (\<lambda>st'. Inr (st', g'))"
    using len by (simp add: MotionModelUpdate_def ns us vget_def vset_def v3_def)
  then have "MotionModelUpdate tw st g =
      Inr (st\<lparr>prev_state := v3, sigma := mk_mat (nat (state_size st)) (nat (state_size st))
                 (covar_entry (nat (state_size st))
                    (G_matrix (nat (state_size st)) (motion_dupdate tw (prev_state st ! 0))) (sigma st)
                    (Qbar_matrix (nat (state_size st)) (Qnoise st)))\<rparr>, g')"
    by (simp only: U bind_r_Inr)
  then show ?thesis by (simp add: ns us v3_def)
qed

text \<open>
  The constructor succeeds when the landmark count is not negative, the state size fits
  an \<^verbatim>\<open>int\<close> and the storage can be obtained.
\<close>

lemma Slam_ok:
  assumes "0 \<le> L" and "L \<le> 1073741822"
    and "nat (3 + 2 * L) + nat (3 + 2 * L) * nat (3 + 2 * L) \<le> cap"
  shows "Slam cap L Q R = Inr \<lparr>Qnoise = Q, Rnoise = R, state_size = 3 + 2 * L,
            prev_state = replicate (nat (3 + 2 * L)) 0,
            sigma = mk_mat (nat (3 + 2 * L)) (nat (3 + 2 * L))
                      (\<lambda>i j. if 3 \<le> i \<and> i = j then 10000 else 0)\<rparr>"
proof -
  define l where "l = nat L"
  have L: "L = int l" using assms(1) by (simp add: l_def)
  have n: "nat (3 + 2 * int l) = 3 + 2 * l" by simp
  have r: "int32 (int l)" "int32 (2 * int l)" "int32 (3 + 2 * int l)"
    using assms(2) by (simp_all add: int32_def L)
  have c: "\<not> cap < 3 + 2 * l + (3 + 2 * l) * (3 + 2 * l)"
    using assms(3) unfolding L n by simp
  have id: "Identity_m (2 * int l) (2 * int l) = Inr (mk_mat (2 * l) (2 * l) (\<lambda>i j. if i = j then 1 else 0))"
    by (simp add: Identity_m_def nat_mult_distrib)
  have sc: "scale_m (mk_mat a b f) c = mk_mat a b (\<lambda>i j. f i j * c)" for a b f c
    by (simp add: scale_m_def mk_mat_def)
  show ?thesis
    unfolding L Slam_def Let_def n
    apply (simp only: r c simp_thms if_True if_False)
    apply (simp add: set_block_def id sc nat_add_distrib nat_mult_distrib)
    apply (rule mk_mat_cong)
    apply (auto simp: sc)
    done
qed

lemma Slam_negative:
  assumes "L < 0"
  shows "\<exists>e. Slam cap L Q R = Inl e"
proof -
  consider "\<not> (int32 L \<and> int32 (2 * L) \<and> int32 (3 + 2 * L))"
    | "int32 L" "int32 (2 * L)" "int32 (3 + 2 * L)" "3 + 2 * L < 0"
    | "int32 L" "int32 (2 * L)" "int32 (3 + 2 * L)" "L = - 1"
    using assms by linarith
  then show ?thesis
  proof cases
    case 1
    then have "Slam cap L Q R = Inl SignedOverflow"
      unfolding Slam_def Let_def by (simp only: if_False)
    then show ?thesis by blast
  next
    case 2
    then show ?thesis by (simp add: Slam_def Let_def)
  next
    case 3
    then show ?thesis by (simp add: Slam_def Let_def set_block_def int32_def)
  qed
qed

lemma Slam_overflow: "1073741822 < L \<Longrightarrow> Slam cap L Q R = Inl SignedOverflow"
  by (simp add: Slam_def Let_def int32_def)

lemma Slam_bad_alloc:
  "0 \<le> L \<Longrightarrow> L \<le> 1073741822 \<Longrightarrow> cap < nat (3 + 2 * L) + nat (3 + 2 * L) * nat (3 + 2 * L) \<Longrightarrow>
   Slam cap L Q R = Inl BadAlloc"
  by (simp add: Slam_def Let_def int32_def)

section \<open>Facts about rounding\<close>

lemma pow2_powr: "pow2 k = 2 powr of_int k"
  by (simp add: pow2_def powr_real_of_int field_simps)

lemma floor_log2:
  assumes "pow2 k \<le> x" and "x < pow2 (k + 1)"
  shows "\<lfloor>log 2 x\<rfloor> = k"
proof -
  have "0 < pow2 k" by (simp add: pow2_powr)
  then have x: "0 < x" using assms(1) by linarith
  have "of_int k \<le> log 2 x" using assms(1) x by (simp add: le_log_iff pow2_powr)
  moreover have "log 2 x < of_int k + 1" using assms(2) x by (simp add: log_less_iff pow2_powr)
  ultimately show ?thesis by linarith
qed

text \<open>The rounding of a number whose binade \<open>[2\<^sup>k, 2\<^sup>k\<^sup>+\<^sup>1)\<close> is known.\<close>

lemma dbl_binade:
  assumes "pow2 k \<le> \<bar>x\<bar>" and "\<bar>x\<bar> < pow2 (k + 1)"
  shows "dbl x = of_int (round_even (x / pow2 (k - 52))) * pow2 (k - 52)"
proof -
  have "0 < pow2 k" by (simp add: pow2_powr)
  then have "x \<noteq> 0" using assms(1) by auto
  then show ?thesis by (simp add: dbl_def Let_def floor_log2 [OF assms])
qed

text \<open>
  The roundings that the example below meets. With \<open>A = 2\<^sup>2\<^sup>3 = 8388608\<close> and
  \<open>e = 2\<^sup>-\<^sup>3\<^sup>0 = 1 / 1073741824\<close>: the numbers \<open>0\<close>, \<open>1\<close>, \<open>e\<close>, \<open>2 * e\<close>, \<open>A\<close>, \<open>2 * A\<close>
  and \<open>A + 2 * e\<close> are doubles, and \<open>A + e\<close> lies half way between the doubles \<open>A\<close> and
  \<open>A + 2 * e\<close> and is rounded to \<open>A\<close>, whose significand is even.
\<close>

lemma dbl_0: "dbl 0 = 0"
  by (simp add: dbl_def)

lemma dbl_1: "dbl 1 = 1"
  using dbl_binade [of 0 1] by (simp add: round_even_def pow2_def)

lemma dbl_A: "dbl 8388608 = 8388608"
  using dbl_binade [of 23 8388608] by (simp add: round_even_def pow2_def)

lemma dbl_2A: "dbl 16777216 = 16777216"
  using dbl_binade [of 24 16777216] by (simp add: round_even_def pow2_def)

lemma dbl_e: "dbl (1 / 1073741824) = 1 / 1073741824"
  using dbl_binade [of "- 30" "1 / 1073741824"] by (simp add: round_even_def pow2_def)

lemma dbl_2e: "dbl (1 / 536870912) = 1 / 536870912"
  using dbl_binade [of "- 29" "1 / 536870912"] by (simp add: round_even_def pow2_def)

lemma dbl_A_plus_e: "dbl (9007199254740993 / 1073741824) = 8388608"
  using dbl_binade [of 23 "9007199254740993 / 1073741824"] by (simp add: round_even_def pow2_def)

lemma dbl_A_plus_2e: "dbl (4503599627370497 / 536870912) = 4503599627370497 / 536870912"
  using dbl_binade [of 23 "4503599627370497 / 536870912"] by (simp add: round_even_def pow2_def)

lemmas dbl_eval = dbl_0 dbl_1 dbl_A dbl_2A dbl_e dbl_2e dbl_A_plus_e dbl_A_plus_2e

text \<open>Without rounding the operations are the exact ones.\<close>

lemma sum_r_exact: "sum_r (\<lambda>x. x) f k = sum f {..k}"
  by (induction k) simp_all

lemma add_m_r_exact: "add_m_r (\<lambda>x. x) A B = add_m A B"
  by (simp add: add_m_r_def add_m_def)

lemma sum_atMost_pred: "0 < (n :: nat) \<Longrightarrow> sum f {..n - 1} = sum f {..<n}"
  by (cases n) (simp_all add: lessThan_Suc_atMost)

lemma mul_m_r_exact: "mul_m_r (\<lambda>x. x) A B = mul_m A B"
proof -
  have "(if cols A = 0 then 0 else sum_r (\<lambda>x. x) f (cols A - 1)) = sum f {..<cols A}"
    for f :: "nat \<Rightarrow> real"
  proof (cases "cols A = 0")
    case True
    then show ?thesis by simp
  next
    case False
    then have "sum f {..cols A - 1} = sum f {..<cols A}"
      by (intro sum_atMost_pred) simp
    then show ?thesis using False by (simp only: sum_r_exact if_False)
  qed
  then show ?thesis unfolding mul_m_r_def mul_m_def by (simp only:)
qed

lemma updateCovarPrediction_r_exact:
  "updateCovarPrediction_r (\<lambda>x. x) d st = updateCovarPrediction d st"
  by (simp add: updateCovarPrediction_r_def updateCovarPrediction_def add_m_r_exact mul_m_r_exact)

section \<open>Facts about the filter\<close>

lemmas mat_eval = bind_r_def rows_def cols_def mk_mat_def Zero_m_def Identity_m_def transpose_m_def
  scale_m_def add_m_def sub_m_def mul_m_def mul_mv_def add_v_def set_block_def mset_coeff_def
  vget_def vset_def at_v_def of_mat3_def of_vec3_def zero_mat3_def Let_def eval_nat_numeral lessThan_Suc

lemmas predict_eval = MotionModelUpdate_def updateCovarPrediction_def motion_update_def
  motion_dupdate_def getStateNoise_def llt_matrixL_def sampleNormalDistribution_def estimate_def
  zero_rng_def

text \<open>The modelled \<open>normalize_angle\<close> has the range the specification gives it.\<close>

lemma normalize_angle_range: "- pi < normalize_angle a \<and> normalize_angle a \<le> pi"
proof -
  define k where "k = \<lceil>(a - pi) / (2 * pi)\<rceil>"
  have "(a - pi) / (2 * pi) \<le> of_int k" and "of_int k - 1 < (a - pi) / (2 * pi)"
    unfolding k_def by linarith+
  then have "a - pi \<le> of_int k * (2 * pi)" and "(of_int k - 1) * (2 * pi) < a - pi"
    by (simp_all add: pos_divide_le_eq pos_less_divide_eq)
  then show ?thesis
    unfolding normalize_angle_def k_def [symmetric] by (simp add: algebra_simps)
qed

text \<open>
  \<^verbatim>\<open>getHMatrix\<close> hands the comma initialiser blocks of \<open>3\<close>, \<open>2 * id\<close>, \<open>2\<close> and
  \<open>state_size - 3 - 2 * id\<close> columns, that is \<open>state_size + 2\<close> columns for a matrix of
  \<open>state_size\<close>: the assertion fails whatever the arguments are, and with it every round
  of the measurement loop.
\<close>

lemma getHMatrix_fails: "getHMatrix st x y d (int i) = Inl EigenAssertion"
  apply (simp add: getHMatrix_def Zero_m_def bind_r_def comma_init_def rows_def cols_def mk_mat_def getHMatrix_pt1_def getHMatrix_pt3_def Let_def
     split: list.splits)
  apply auto
  done

lemma update_step_fails: "\<exists>e. update_step invf map_data i sg = Inl e"
proof (cases sg)
  case (Pair st g)
  then show ?thesis
    by (auto simp: update_step_def bind_r_def Let_def getHMatrix_fails split: sum.splits prod.splits)
qed

lemma MeasurmentModelUpdate_Inr_iff:
  "MeasurmentModelUpdate invf map_data st g = Inr r \<longleftrightarrow> centers map_data = [] \<and> r = (st, g)"
proof (cases "centers map_data")
  case Nil
  then show ?thesis by (auto simp: MeasurmentModelUpdate_def)
next
  case (Cons c cs)
  then have "0 < length (centers map_data)" by simp
  then have "[0..<length (centers map_data)] = 0 # [Suc 0..<length (centers map_data)]"
    by (rule upt_conv_Cons)
  moreover obtain e where "update_step invf map_data 0 (st, g) = Inl e"
    using update_step_fails by blast
  ultimately show ?thesis using Cons by (simp add: MeasurmentModelUpdate_def)
qed

lemma estimate_bind: "estimate (bind_r m f) = bind_r m (\<lambda>x. estimate (f x))"
  by (cases m) (simp_all add: estimate_def)

lemma getStateNoise_zero:
  "Qnoise st = zero_mat3 \<Longrightarrow> getStateNoise st g = ((0, 0, 0), \<lambda>n. g (Suc (Suc (Suc n))))"
  by (simp add: getStateNoise_def llt_matrixL_def zero_mat3_def sampleNormalDistribution_def)

section \<open>The claims\<close>

text \<open>
  Claim C1: for every observation the 2 by 3 pose block of the observation Jacobian is
  row 0 = \<open>[0, -dx/\<surd>d, -dy/\<surd>d]\<close>, row 1 = \<open>[-1, dy/d, -dx/d]\<close>. The block \<open>pt1\<close> of
  \<^verbatim>\<open>getHMatrix\<close> ends its second row with \<open>+dx/d\<close>: for a landmark at \<open>dx = 1\<close>,
  \<open>dy = 0\<close>, \<open>d = 1\<close> the block is \<open>[[0, -1, 0], [-1, 0, 1]]\<close>, where the claim has \<open>-1\<close>
  in the last place. The landmark block \<open>pt3\<close> of the same function has the second row
  \<open>[-dy/d, dx/d]\<close>, the opposite of the claim's pose entries.
\<close>

theorem C1_pose_block_sign:
  "getHMatrix_pt1 1 0 1 = [[0, - 1, 0], [- 1, 0, 1]]"
  by (simp add: getHMatrix_pt1_def)

text \<open>
  Claim C2: for a twist with \<open>\<omega> = 0\<close> the prediction step adds \<open>\<Delta>x = vx * cos \<theta>\<close> and
  \<open>\<Delta>y = vx * sin \<theta>\<close> to the pose (plus noise). The source computes \<open>\<Delta>y\<close> from the
  lateral component, \<open>vy * sin \<theta>\<close>: from the heading \<open>\<pi>/2\<close>, with the twist
  \<open>(0, 1, 0)\<close> and no noise, the mean stays \<open>[\<pi>/2, 0, 0]\<close>, where the claim expects
  \<open>y = 1\<close>.
\<close>

theorem C2_translation_uses_vy:
  "estimate (MotionModelUpdate \<lparr>wz = 0, vx = 1, vy = 0\<rparr>
      \<lparr>Qnoise = zero_mat3, Rnoise = zero_mat3, state_size = 3, prev_state = [pi / 2, 0, 0],
       sigma = [[0, 0, 0], [0, 0, 0], [0, 0, 0]]\<rparr> zero_rng)
   = Inr ([pi / 2, 0, 0], [[0, 0, 0], [0, 0, 0], [0, 0, 0]])"
  by (simp add: predict_eval mat_eval)

text \<open>
  Claim C3: the Kalman gain is \<open>\<Sigma> * H\<^sup>T * (H * \<Sigma> * H\<^sup>T + R2)\<inverse>\<close> with \<open>R2\<close> the top-left
  2 by 2 block of the configured \<open>R\<close>. Line 193 adds the whole 3 by 3 \<open>Rnoise\<close> to the
  2 by 2 product: even for a Jacobian of the right shape (2 by 5 for one landmark) the
  sum fails the library's shape assertion, whatever the inverse would compute, and no gain
  comes out.
\<close>

theorem C3_gain_adds_full_R:
  "kalman_gain invf
     [[0, 0, 0, 0, 0], [0, 0, 0, 0, 0], [0, 0, 0, 0, 0], [0, 0, 0, 10000, 0], [0, 0, 0, 0, 10000]]
     [[0, - 1, 0, 1, 0], [- 1, 0, - 1, 0, 1]]
     ((1, 0, 0), (0, 1, 0), (0, 0, 1)) = Inl EigenAssertion"
  by (simp add: kalman_gain_def mat_eval)

text \<open>
  Claim C4: after every prediction step the heading \<open>mu[0]\<close> lies in \<open>(-\<pi>, \<pi>]\<close>.
  It fails: from the zero state, the twist \<open>(4, 0, 0)\<close> and no noise leave the heading
  \<open>4\<close>, which is more than \<open>\<pi>\<close>.
\<close>

theorem C4_counterexample:
  "estimate (MotionModelUpdate \<lparr>wz = 4, vx = 0, vy = 0\<rparr>
      \<lparr>Qnoise = zero_mat3, Rnoise = zero_mat3, state_size = 3, prev_state = [0, 0, 0],
       sigma = [[0, 0, 0], [0, 0, 0], [0, 0, 0]]\<rparr> zero_rng)
   = Inr ([4, 0, 0], [[0, 0, 0], [0, 0, 0], [0, 0, 0]]) \<and> \<not> (4 \<le> pi)"
  using pi_less_4 by (simp add: predict_eval mat_eval)

text \<open>
  Claim C4 as the source has it: on every state whose sizes agree the prediction step
  succeeds, and the new heading is the old heading plus the increment \<open>\<Delta>\<theta>\<close> plus the
  first noise component, exactly; no normalisation is applied to it.
\<close>

theorem C4_heading_not_normalized:
  assumes "wf_slam st"
  shows "\<exists>st' g'. MotionModelUpdate tw st g = Inr (st', g') \<and>
           prev_state st' ! 0 =
             prev_state st ! 0 + (fst (motion_update tw (prev_state st ! 0)) + fst (fst (getStateNoise st g)))"
proof -
  have "0 < length (prev_state st)" using assms by (auto simp: wf_slam_def)
  then show ?thesis
    by (simp add: MotionModelUpdate_ok [OF assms])
qed

text \<open>
  Claim C4, an instance: from the heading \<open>3\<close> the twist \<open>(1, 0, 0)\<close> without noise
  gives the heading \<open>4\<close>.
\<close>

theorem C4_heading_not_normalized_witness:
  "wf_slam \<lparr>Qnoise = zero_mat3, Rnoise = zero_mat3, state_size = 3, prev_state = [3, 0, 0],
            sigma = [[0, 0, 0], [0, 0, 0], [0, 0, 0]]\<rparr> \<and>
   (\<exists>st' g'. MotionModelUpdate \<lparr>wz = 1, vx = 0, vy = 0\<rparr>
        \<lparr>Qnoise = zero_mat3, Rnoise = zero_mat3, state_size = 3, prev_state = [3, 0, 0],
         sigma = [[0, 0, 0], [0, 0, 0], [0, 0, 0]]\<rparr> zero_rng = Inr (st', g') \<and>
      prev_state st' ! 0 = 4)"
proof -
  let ?st = "\<lparr>Qnoise = zero_mat3, Rnoise = zero_mat3, state_size = 3, prev_state = [3, 0, 0],
            sigma = [[0, 0, 0], [0, 0, 0], [0, 0, 0]]\<rparr>"
  have wf: "wf_slam ?st" by (simp add: wf_slam_def is_mat_def)
  show ?thesis
    using wf C4_heading_not_normalized [OF wf, of "\<lparr>wz = 1, vx = 0, vy = 0\<rparr>" zero_rng]
    by (simp add: motion_update_def getStateNoise_def llt_matrixL_def zero_mat3_def
        sampleNormalDistribution_def zero_rng_def)
qed

text \<open>
  Claim C6: an observation whose squared distance \<open>d\<close> is zero is skipped, leaves the mean
  and the covariance as they are, and the rest of the batch is processed. In the state
  that the constructor builds for one landmark (with storage for its 5 + 25 doubles), the
  landmark estimate and the robot are both at the origin, so \<open>d = 0\<close> for the first
  observation ever made. The loop has no test on \<open>d\<close>: it calls \<^verbatim>\<open>getHMatrix\<close> with
  \<open>d = 0\<close> and the measurement update stops there with a failed assertion instead of
  returning the unchanged state.
\<close>

theorem C6_no_skip_at_zero_distance:
  "Slam 30 1 zero_mat3 zero_mat3 =
     Inr \<lparr>Qnoise = zero_mat3, Rnoise = zero_mat3, state_size = 5, prev_state = [0, 0, 0, 0, 0],
          sigma = [[0, 0, 0, 0, 0], [0, 0, 0, 0, 0], [0, 0, 0, 0, 0], [0, 0, 0, 10000, 0], [0, 0, 0, 0, 10000]]\<rparr>
   \<and> MeasurmentModelUpdate invf \<lparr>centers = [\<lparr>pt_x = 1, pt_y = 0, pt_z = 0\<rparr>], radii = [1]\<rparr>
     \<lparr>Qnoise = zero_mat3, Rnoise = zero_mat3, state_size = 5, prev_state = [0, 0, 0, 0, 0],
      sigma = [[0, 0, 0, 0, 0], [0, 0, 0, 0, 0], [0, 0, 0, 0, 0], [0, 0, 0, 10000, 0], [0, 0, 0, 0, 10000]]\<rparr> g
     = Inl EigenAssertion"
  by (simp add: Slam_def int32_def MeasurmentModelUpdate_def update_step_def measurements_def sensorModel_def
      getMeasurementNoise_def getHMatrix_def comma_init_def getHMatrix_pt1_def getHMatrix_pt3_def
      llt_matrixL_def sampleNormalDistribution_def mat_eval)

text \<open>
  Claim C7: construction fails with an invalid-configuration error when \<open>Q\<close> is not
  symmetric positive semi-definite. It fails: the constructor accepts \<open>Q = -I\<close> and
  returns an estimator state that holds it (no landmark, storage for 3 + 9 doubles).
\<close>

theorem C7_counterexample:
  "\<not> spsd3 ((- 1, 0, 0), (0, - 1, 0), (0, 0, - 1)) \<and>
   Slam 12 0 ((- 1, 0, 0), (0, - 1, 0), (0, 0, - 1)) zero_mat3
   = Inr \<lparr>Qnoise = ((- 1, 0, 0), (0, - 1, 0), (0, 0, - 1)), Rnoise = zero_mat3, state_size = 3,
          prev_state = [0, 0, 0], sigma = [[0, 0, 0], [0, 0, 0], [0, 0, 0]]\<rparr>"
proof -
  have "\<not> psd3 ((- 1, 0, 0), (0, - 1, 0), (0, 0, - 1))"
    unfolding psd3_def by (simp add: not_le) (rule exI [of _ 1], rule exI [of _ 0], rule exI [of _ 0], simp)
  then show ?thesis by (simp add: spsd3_def Slam_def int32_def mat_eval)
qed

text \<open>
  Claim C7 as the source has it: whether the constructor succeeds depends on the landmark
  count \<open>L\<close> and on the storage only, never on \<open>Q\<close> or \<open>R\<close>. A negative \<open>L\<close> produces no
  state (the constructor stops at an assertion of the matrix library, or at the overflow
  of \<open>3 + 2 * L\<close>); so does an \<open>L\<close> above \<open>1073741822\<close>, where \<open>3 + 2 * L\<close> leaves the
  \<^verbatim>\<open>int\<close>, and an \<open>L\<close> for whose \<open>N + N * N\<close> doubles, \<open>N = 3 + 2 * L\<close>, the allocator has no
  room. In every other case the constructor succeeds for all 3 by 3 matrices \<open>Q\<close> and \<open>R\<close>
  (the type admits no other shape), stores them as they are, and returns a state of size
  \<open>N\<close> with zero mean.
\<close>

theorem C7_construction_unchecked:
  "(L < 0 \<longrightarrow> (\<exists>e. Slam cap L Q R = Inl e)) \<and>
   (1073741822 < L \<longrightarrow> Slam cap L Q R = Inl SignedOverflow) \<and>
   (0 \<le> L \<and> L \<le> 1073741822 \<and> cap < nat (3 + 2 * L) + nat (3 + 2 * L) * nat (3 + 2 * L) \<longrightarrow>
      Slam cap L Q R = Inl BadAlloc) \<and>
   (0 \<le> L \<and> L \<le> 1073741822 \<and> nat (3 + 2 * L) + nat (3 + 2 * L) * nat (3 + 2 * L) \<le> cap \<longrightarrow>
      (\<exists>st. Slam cap L Q R = Inr st \<and> Qnoise st = Q \<and> Rnoise st = R \<and>
        state_size st = 3 + 2 * L \<and> prev_state st = replicate (nat (3 + 2 * L)) 0 \<and> wf_slam st))"
  by (auto simp: Slam_negative Slam_overflow Slam_bad_alloc Slam_ok wf_slam_def)

text \<open>
  Claim C7, instances: \<open>L = -1\<close> produces no state; \<open>L = 1073741823\<close> overflows; \<open>L = 1\<close>
  with room for 29 doubles cannot be allocated; \<open>L = 1\<close> with room for 30, \<open>Q = -I\<close> and
  an asymmetric \<open>R\<close> is accepted.
\<close>

theorem C7_construction_unchecked_witness:
  "(\<exists>e. Slam 30 (- 1) zero_mat3 zero_mat3 = Inl e) \<and>
   Slam 30 1073741823 zero_mat3 zero_mat3 = Inl SignedOverflow \<and>
   Slam 29 1 zero_mat3 zero_mat3 = Inl BadAlloc \<and>
   (\<exists>st. Slam 30 1 ((- 1, 0, 0), (0, - 1, 0), (0, 0, - 1)) ((0, 1, 0), (0, 0, 0), (0, 0, 0)) = Inr st \<and>
      Qnoise st = ((- 1, 0, 0), (0, - 1, 0), (0, 0, - 1)) \<and>
      Rnoise st = ((0, 1, 0), (0, 0, 0), (0, 0, 0)) \<and> state_size st = 5 \<and>
      prev_state st = [0, 0, 0, 0, 0] \<and> wf_slam st)"
proof -
  have 1: "\<exists>e. Slam 30 (- 1) zero_mat3 zero_mat3 = Inl e"
    using C7_construction_unchecked [of "- 1" 30 zero_mat3 zero_mat3] by simp
  have 2: "Slam 30 1073741823 zero_mat3 zero_mat3 = Inl SignedOverflow"
    using C7_construction_unchecked [of 1073741823 30 zero_mat3 zero_mat3] by simp
  have 3: "Slam 29 1 zero_mat3 zero_mat3 = Inl BadAlloc"
    using C7_construction_unchecked [of 1 29 zero_mat3 zero_mat3] by simp
  have 4: "\<exists>st. Slam 30 1 ((- 1, 0, 0), (0, - 1, 0), (0, 0, - 1)) ((0, 1, 0), (0, 0, 0), (0, 0, 0)) = Inr st \<and>
      Qnoise st = ((- 1, 0, 0), (0, - 1, 0), (0, 0, - 1)) \<and>
      Rnoise st = ((0, 1, 0), (0, 0, 0), (0, 0, 0)) \<and> state_size st = 5 \<and>
      prev_state st = [0, 0, 0, 0, 0] \<and> wf_slam st"
    using C7_construction_unchecked [of 1 30 "((- 1, 0, 0), (0, - 1, 0), (0, 0, - 1))" "((0, 1, 0), (0, 0, 0), (0, 0, 0))"]
    by (simp add: numeral_eq_Suc)
  show ?thesis using 1 2 3 4 by simp
qed

text \<open>
  Claim C8: for every symmetric covariance and symmetric \<open>Q\<close> the covariance after the
  prediction step is again symmetric. In the double arithmetic of line 150 it fails. Take
  the symmetric, positive definite covariance with \<open>A = 2\<^sup>2\<^sup>3\<close> on the diagonal and
  \<open>e = 2\<^sup>-\<^sup>3\<^sup>0\<close> next to it, \<open>Q = 0\<close> and \<open>dupdate = (0, 1, 1)\<close>: the coefficient \<open>(1, 2)\<close>
  of the result is \<open>dbl (dbl (A + e) + e) = A\<close>, the coefficient \<open>(2, 1)\<close> is
  \<open>dbl (A + dbl (e + e)) = A + 2 * e\<close>. Every product here has a factor \<open>0\<close> or \<open>1\<close> and
  every sum at most two terms that are not zero, so the order in which the library adds
  them does not matter. The two coefficients differ by \<open>2\<^sup>-\<^sup>2\<^sup>9\<close>, which is more than
  \<open>10\<^sup>-\<^sup>9\<close>.
\<close>

theorem C8_counterexample:
  "symmetric_m [[8388608, 1 / 1073741824, 0],
                [1 / 1073741824, 8388608, 1 / 1073741824],
                [0, 1 / 1073741824, 8388608]] \<and>
   updateCovarPrediction_r dbl (0, 1, 1)
     \<lparr>Qnoise = zero_mat3, Rnoise = zero_mat3, state_size = 3, prev_state = [0, 0, 0],
      sigma = [[8388608, 1 / 1073741824, 0],
               [1 / 1073741824, 8388608, 1 / 1073741824],
               [0, 1 / 1073741824, 8388608]]\<rparr>
   = Inr \<lparr>Qnoise = zero_mat3, Rnoise = zero_mat3, state_size = 3, prev_state = [0, 0, 0],
          sigma = [[8388608, 8388608, 8388608],
                   [8388608, 16777216, 8388608],
                   [8388608, 4503599627370497 / 536870912, 16777216]]\<rparr> \<and>
   \<not> symmetric_m [[8388608, 8388608, 8388608],
                  [8388608, 16777216, 8388608],
                  [8388608, 4503599627370497 / 536870912, 16777216]] \<and>
   1 / 1000000000 < 4503599627370497 / 536870912 - (8388608 :: real)"
proof -
  have 1: "symmetric_m [[8388608, 1 / 1073741824, 0],
                [1 / 1073741824, 8388608, 1 / 1073741824],
                [0, 1 / 1073741824, 8388608]]"
    by (simp add: symmetric_m_def transpose_m_def mk_mat_def rows_def cols_def eval_nat_numeral)
  have 2: "updateCovarPrediction_r dbl (0, 1, 1)
     \<lparr>Qnoise = zero_mat3, Rnoise = zero_mat3, state_size = 3, prev_state = [0, 0, 0],
      sigma = [[8388608, 1 / 1073741824, 0],
               [1 / 1073741824, 8388608, 1 / 1073741824],
               [0, 1 / 1073741824, 8388608]]\<rparr>
   = Inr \<lparr>Qnoise = zero_mat3, Rnoise = zero_mat3, state_size = 3, prev_state = [0, 0, 0],
          sigma = [[8388608, 8388608, 8388608],
                   [8388608, 16777216, 8388608],
                   [8388608, 4503599627370497 / 536870912, 16777216]]\<rparr>"
    by (simp add: updateCovarPrediction_r_def bind_r_def rows_def cols_def mk_mat_def Zero_m_def
        Identity_m_def transpose_m_def add_m_r_def mul_m_r_def set_block_def mset_coeff_def
        of_mat3_def of_vec3_def zero_mat3_def eval_nat_numeral dbl_eval)
  have 3: "\<not> symmetric_m [[8388608, 8388608, 8388608],
                  [8388608, 16777216, 8388608],
                  [8388608, 4503599627370497 / 536870912, 16777216]]"
    by (simp add: symmetric_m_def transpose_m_def mk_mat_def rows_def cols_def eval_nat_numeral)
  show ?thesis using 1 2 3 by simp
qed

text \<open>
  Claim C8 as the source has it: the covariance that the constructor builds is symmetric.
  The prediction step computes \<open>\<Sigma>' = G * \<Sigma> * G\<^sup>T + Qbar\<close> and does not symmetrise it: for
  every state with a symmetric covariance and a symmetric process noise \<open>Q\<close> the step
  succeeds and \<open>\<Sigma>'\<close> is symmetric when the sums and products of line 150 are exact, that
  is up to their rounding. The rounded step without rounding is the exact step.
\<close>

theorem C8_symmetric_up_to_rounding:
  "(0 \<le> L \<and> L \<le> 1073741822 \<and> nat (3 + 2 * L) + nat (3 + 2 * L) * nat (3 + 2 * L) \<le> cap \<longrightarrow>
      (\<exists>st. Slam cap L Q R = Inr st \<and> wf_slam st \<and> symmetric_m (sigma st))) \<and>
   (wf_slam st \<and> symmetric_m (sigma st) \<and> symmetric_m (of_mat3 (Qnoise st)) \<longrightarrow>
     (\<exists>st' g'. MotionModelUpdate tw st g = Inr (st', g') \<and> wf_slam st' \<and>
        updateCovarPrediction_r (\<lambda>x. x) (motion_dupdate tw (prev_state st ! 0)) st
          = Inr (st\<lparr>sigma := sigma st'\<rparr>) \<and>
        sigma st' = mk_mat (nat (state_size st)) (nat (state_size st))
                      (covar_entry (nat (state_size st))
                         (G_matrix (nat (state_size st)) (motion_dupdate tw (prev_state st ! 0)))
                         (sigma st) (Qbar_matrix (nat (state_size st)) (Qnoise st))) \<and>
        symmetric_m (sigma st')))"
proof (intro conjI impI)
  assume L: "0 \<le> L \<and> L \<le> 1073741822 \<and> nat (3 + 2 * L) + nat (3 + 2 * L) * nat (3 + 2 * L) \<le> cap"
  have "symmetric_m (mk_mat (nat (3 + 2 * L)) (nat (3 + 2 * L)) (\<lambda>i j. if 3 \<le> i \<and> i = j then 10000 else 0))"
    by (rule symmetric_mk_mat) auto
  then show "\<exists>st. Slam cap L Q R = Inr st \<and> wf_slam st \<and> symmetric_m (sigma st)"
    using L by (simp add: Slam_ok wf_slam_def)
next
  assume a: "wf_slam st \<and> symmetric_m (sigma st) \<and> symmetric_m (of_mat3 (Qnoise st))"
  then have wf: "wf_slam st" and S: "is_mat (nat (state_size st)) (nat (state_size st)) (sigma st)"
    by (simp_all add: wf_slam_def)
  let ?n = "nat (state_size st)"
  let ?d = "motion_dupdate tw (prev_state st ! 0)"
  let ?S' = "mk_mat ?n ?n (covar_entry ?n (G_matrix ?n ?d) (sigma st) (Qbar_matrix ?n (Qnoise st)))"
  obtain v where v: "length v = length (prev_state st)"
    and M: "MotionModelUpdate tw st g = Inr (st\<lparr>prev_state := v, sigma := ?S'\<rparr>, snd (getStateNoise st g))"
    using MotionModelUpdate_ok [OF wf, of tw g] by (metis length_list_update)
  have sym: "symmetric_m ?S'"
    using S a by (intro covar_symmetric) (auto simp: Qbar_matrix_symmetric)
  have wf': "wf_slam (st\<lparr>prev_state := v, sigma := ?S'\<rparr>)"
    using wf by (simp add: wf_slam_def v)
  have U: "updateCovarPrediction_r (\<lambda>x. x) ?d st = Inr (st\<lparr>sigma := ?S'\<rparr>)"
    by (simp add: updateCovarPrediction_r_exact updateCovarPrediction_ok [OF wf])
  show "\<exists>st' g'. MotionModelUpdate tw st g = Inr (st', g') \<and> wf_slam st' \<and>
        updateCovarPrediction_r (\<lambda>x. x) ?d st = Inr (st\<lparr>sigma := sigma st'\<rparr>) \<and>
        sigma st' = ?S' \<and> symmetric_m (sigma st')"
    using M sym wf' U by simp
qed

text \<open>
  Claim C8, an instance: the state built for one landmark, and a prediction step on a
  state with a symmetric covariance that is not diagonal and \<open>Q = I\<close>.
\<close>

theorem C8_symmetric_up_to_rounding_witness:
  "(\<exists>st. Slam 30 1 zero_mat3 zero_mat3 = Inr st \<and> wf_slam st \<and> symmetric_m (sigma st)) \<and>
   (\<exists>st' g'. MotionModelUpdate \<lparr>wz = 0, vx = 1, vy = 0\<rparr>
       \<lparr>Qnoise = ((1, 0, 0), (0, 1, 0), (0, 0, 1)), Rnoise = zero_mat3, state_size = 3,
        prev_state = [0, 0, 0], sigma = [[2, 1, 0], [1, 2, 0], [0, 0, 1]]\<rparr> zero_rng = Inr (st', g') \<and>
       wf_slam st' \<and> sigma st' = [[3, 1, 2], [1, 3, 1], [2, 1, 4]] \<and> symmetric_m (sigma st'))"
proof -
  let ?st = "\<lparr>Qnoise = ((1, 0, 0), (0, 1, 0), (0, 0, 1)), Rnoise = zero_mat3, state_size = 3,
        prev_state = [0, 0, 0], sigma = [[2, 1, 0], [1, 2, 0], [0, 0, 1]]\<rparr>"
  have h: "wf_slam ?st \<and> symmetric_m (sigma ?st) \<and> symmetric_m (of_mat3 (Qnoise ?st))"
    by (simp add: wf_slam_def is_mat_def symmetric_m_def transpose_m_def mk_mat_def rows_def cols_def
        of_mat3_def of_vec3_def eval_nat_numeral)
  have e: "mk_mat 3 3 (covar_entry 3 (G_matrix 3 (motion_dupdate \<lparr>wz = 0, vx = 1, vy = 0\<rparr> 0))
              [[2, 1, 0], [1, 2, 0], [0, 0, 1]] (Qbar_matrix 3 ((1, 0, 0), (0, 1, 0), (0, 0, 1))))
           = [[3, 1, 2], [1, 3, 1], [2, 1, 4]]"
    by (simp add: mk_mat_def covar_entry_def G_matrix_def Qbar_matrix_def motion_dupdate_def
        of_mat3_def of_vec3_def eval_nat_numeral lessThan_Suc)
  show ?thesis
    using h e C8_symmetric_up_to_rounding [of 1 30 zero_mat3 zero_mat3 ?st "\<lparr>wz = 0, vx = 1, vy = 0\<rparr>" zero_rng]
    by (auto simp: eval_nat_numeral)
qed

text \<open>
  Claim C10: when the process noise \<open>Q\<close> is the zero matrix, its Cholesky factor is zero,
  the state noise is the zero vector whatever samples the generator delivers, and two
  prediction steps from the same state with the same twist and different generators leave
  the same mean and covariance.
\<close>

theorem C10_zero_Q_deterministic:
  assumes "Qnoise st = zero_mat3"
  shows "llt_matrixL (Qnoise st) = zero_mat3 \<and>
         fst (getStateNoise st g1) = (0, 0, 0) \<and> fst (getStateNoise st g2) = (0, 0, 0) \<and>
         estimate (MotionModelUpdate tw st g1) = estimate (MotionModelUpdate tw st g2)"
proof -
  have "estimate (MotionModelUpdate tw st g1) = estimate (MotionModelUpdate tw st g2)"
    by (simp add: MotionModelUpdate_def getStateNoise_zero [OF assms] estimate_bind
        prod.case_distrib [of estimate]) (simp add: estimate_def)
  then show ?thesis
    using assms by (simp add: getStateNoise_zero llt_matrixL_def zero_mat3_def)
qed

text \<open>
  Claim C10, an instance: a generator that delivers zeros and one that delivers
  \<open>0, 1, 2, \<dots>\<close>.
\<close>

theorem C10_zero_Q_deterministic_witness:
  "Qnoise \<lparr>Qnoise = zero_mat3, Rnoise = zero_mat3, state_size = 3, prev_state = [0, 0, 0],
           sigma = [[2, 1, 0], [1, 2, 0], [0, 0, 1]]\<rparr> = zero_mat3 \<and>
   estimate (MotionModelUpdate \<lparr>wz = 0, vx = 1, vy = 0\<rparr>
      \<lparr>Qnoise = zero_mat3, Rnoise = zero_mat3, state_size = 3, prev_state = [0, 0, 0],
       sigma = [[2, 1, 0], [1, 2, 0], [0, 0, 1]]\<rparr> zero_rng)
   = estimate (MotionModelUpdate \<lparr>wz = 0, vx = 1, vy = 0\<rparr>
      \<lparr>Qnoise = zero_mat3, Rnoise = zero_mat3, state_size = 3, prev_state = [0, 0, 0],
       sigma = [[2, 1, 0], [1, 2, 0], [0, 0, 1]]\<rparr> real)"
  using C10_zero_Q_deterministic [of "\<lparr>Qnoise = zero_mat3, Rnoise = zero_mat3, state_size = 3,
       prev_state = [0, 0, 0], sigma = [[2, 1, 0], [1, 2, 0], [0, 0, 1]]\<rparr>" zero_rng real
       "\<lparr>wz = 0, vx = 1, vy = 0\<rparr>"]
  by simp

end
